theory Spec2Isabelle
  imports Complex_Main
begin

section \<open>The myBuddy 280 ROS 2 wrapper: data model\<close>

text \<open>
  The node of \<^verbatim>\<open>mybuddy280_ros2_wrapper.py\<close> wraps the vendor SDK object \<^verbatim>\<open>self.mc\<close>
  (the Device Link). The SDK, rclpy and the message classes are not part of the
  repository; the Device Link is modelled by the calls the node makes on it, recorded in
  order. A \<^verbatim>\<open>send_angle\<close> call is taken to return, as the Device Link's interface
  states; the log line of line 113 has no effect on the result and is left out.
\<close>

text \<open>Python exceptions that can leave the modelled methods.\<close>

datatype py_error = SerialException | AttributeError | IndexError | TypeError | DeviceError

text \<open>
  A Python float: a finite value, an infinity or NaN. Every comparison with NaN is false,
  so NaN fails the range check of the dispatcher.
\<close>

datatype pyfloat = Fin real | PosInf | NegInf | NaN

fun float_le :: "pyfloat \<Rightarrow> pyfloat \<Rightarrow> bool" where
  "float_le NaN _ = False"
| "float_le _ NaN = False"
| "float_le NegInf _ = True"
| "float_le _ PosInf = True"
| "float_le (Fin a) (Fin b) = (a \<le> b)"
| "float_le PosInf _ = False"
| "float_le _ NegInf = False"

text \<open>The calls made on the Device Link, with their arguments.\<close>

datatype link_call =
    GetAngles nat
  | GetAngle nat nat
  | SendAngle nat int pyfloat int

text \<open>The service request \<^verbatim>\<open>MyBuddy280SendAngles\<close>: a part code and three sequences.\<close>

record request =
  part_id :: string
  joint_number :: "int list"
  angle :: "pyfloat list"
  speed :: "int list"

text \<open>\<^verbatim>\<open>xs[i]\<close> for a cursor \<open>i \<ge> 0\<close>: Python raises IndexError past the end.\<close>

definition index_at :: "'a list \<Rightarrow> nat \<Rightarrow> py_error + 'a" where
  "index_at xs i = (if i < length xs then Inr (xs ! i) else Inl IndexError)"

section \<open>The command dispatcher\<close>

text \<open>
  The loop of \<^verbatim>\<open>send_joint_angles_callback\<close> (lines 124 to 142). It walks
  \<^verbatim>\<open>request.joint_number\<close> and reads \<^verbatim>\<open>request.angle[i]\<close> and
  \<^verbatim>\<open>request.speed[i]\<close> at its own cursor \<open>i\<close>, which it advances only after a
  \<^verbatim>\<open>send_angle\<close>. The result is the calls made so far, the final cursor, and either the
  exception raised or the text stored in \<^verbatim>\<open>response.result\<close>.
\<close>

fun send_loop ::
  "nat \<Rightarrow> request \<Rightarrow> int list \<Rightarrow> nat \<Rightarrow> link_call list
    \<Rightarrow> link_call list \<times> nat \<times> (py_error + string)" where
  "send_loop p req [] i calls = (calls, i, Inr ''Success: Angles sent'')"
| "send_loop p req (j # js) i calls =
     (if j \<in> set [1, 2, 3, 4, 5, 6] then
        (case index_at (angle req) i of
           Inl e \<Rightarrow> (calls, i, Inl e)
         | Inr a \<Rightarrow>
            (if float_le (Fin (- 175)) a \<and> float_le a (Fin 175) then
               (case index_at (speed req) i of
                  Inl e \<Rightarrow> (calls, i, Inl e)
                | Inr s \<Rightarrow>
                   (if 1 \<le> s \<and> s \<le> 100 then
                      send_loop p req js (i + 1) (calls @ [SendAngle p j a s])
                    else (calls, i, Inr ''Error: Speed is out of range (1 .. 100)'')))
             else (calls, i, Inr ''Error: Angle is out of range (-175 .. 175)'')))
      else (calls, i, Inr ''Error: Wrong joint number (only 1 .. 6)''))"

text \<open>
  The whole callback: the part code is resolved first (lines 114 to 122), then the loop
  runs from cursor 0. The result is the Device Link calls made and the outcome.
\<close>

definition run_loop :: "nat \<Rightarrow> request \<Rightarrow> link_call list \<times> (py_error + string)" where
  "run_loop p req =
     (case send_loop p req (joint_number req) 0 [] of (calls, i, out) \<Rightarrow> (calls, out))"

definition resolve_part :: "string \<Rightarrow> nat option" where
  "resolve_part c =
     (if c = ''L'' then Some 1
      else if c = ''R'' then Some 2
      else if c = ''W'' then Some 3
      else None)"

definition send_joint_angles_callback ::
  "request \<Rightarrow> link_call list \<times> (py_error + string)" where
  "send_joint_angles_callback req =
     (case resolve_part (part_id req) of
        Some p \<Rightarrow> run_loop p req
      | None \<Rightarrow> ([], Inr ''Error: Wrong ID of robot part, use only L, R or W''))"

text \<open>
  The vocabulary of the claims about the dispatcher. An entry is valid when its joint
  number is one of 1 to 6, its angle is a number between -175 and 175 and its speed is
  between 1 and 100, bounds included; \<open>failure_message\<close> is the message of the first
  check an entry fails, in the order joint number, angle, speed; \<open>sent p req n\<close> is one
  \<^verbatim>\<open>send_angle\<close> call for each of the first \<open>n\<close> entries, in request order.
\<close>

definition joint_in_range :: "int \<Rightarrow> bool" where
  "joint_in_range j = (1 \<le> j \<and> j \<le> 6)"

definition angle_in_range :: "pyfloat \<Rightarrow> bool" where
  "angle_in_range a = (case a of Fin r \<Rightarrow> - 175 \<le> r \<and> r \<le> 175 | _ \<Rightarrow> False)"

definition speed_in_range :: "int \<Rightarrow> bool" where
  "speed_in_range s = (1 \<le> s \<and> s \<le> 100)"

definition valid_entry :: "request \<Rightarrow> nat \<Rightarrow> bool" where
  "valid_entry req k =
     (joint_in_range (joint_number req ! k) \<and> angle_in_range (angle req ! k)
      \<and> speed_in_range (speed req ! k))"

definition failure_message :: "request \<Rightarrow> nat \<Rightarrow> string" where
  "failure_message req k =
     (if \<not> joint_in_range (joint_number req ! k) then
        ''Error: Wrong joint number (only 1 .. 6)''
      else if \<not> angle_in_range (angle req ! k) then
        ''Error: Angle is out of range (-175 .. 175)''
      else ''Error: Speed is out of range (1 .. 100)'')"

definition entry_call :: "nat \<Rightarrow> request \<Rightarrow> nat \<Rightarrow> link_call" where
  "entry_call p req k =
     SendAngle p (joint_number req ! k) (angle req ! k) (speed req ! k)"

definition sent :: "nat \<Rightarrow> request \<Rightarrow> nat \<Rightarrow> link_call list" where
  "sent p req n = map (entry_call p req) [0..<n]"

definition parallel :: "request \<Rightarrow> bool" where
  "parallel req =
     (length (angle req) = length (joint_number req)
      \<and> length (speed req) = length (joint_number req))"

section \<open>The telemetry callback\<close>

text \<open>
  What a read of the SDK can hand back: a sequence of numbers, a single number, or
  \<^verbatim>\<open>None\<close>. The list comprehension of lines 73 and 88 iterates the value and
  \<^verbatim>\<open>float(...)\<close> of line 97 converts it; on a value of the wrong shape Python raises
  TypeError there.
\<close>

datatype sdk_value = Floats "pyfloat list" | Number pyfloat | NoneValue

definition float_list :: "sdk_value \<Rightarrow> py_error + pyfloat list" where
  "float_list v = (case v of Floats xs \<Rightarrow> Inr xs | _ \<Rightarrow> Inl TypeError)"

definition to_float :: "sdk_value \<Rightarrow> py_error + pyfloat" where
  "to_float v = (case v of Number x \<Rightarrow> Inr x | _ \<Rightarrow> Inl TypeError)"

text \<open>
  The Device Link as the telemetry callback sees it during one tick: each read either
  raises or returns a value. Nothing in the callback checks the length of a reply.
\<close>

record device_link =
  get_angles :: "nat \<Rightarrow> py_error + sdk_value"
  get_angle :: "nat \<Rightarrow> nat \<Rightarrow> py_error + sdk_value"

definition read_angles :: "device_link \<Rightarrow> nat \<Rightarrow> py_error + pyfloat list" where
  "read_angles mc g = (case get_angles mc g of Inl e \<Rightarrow> Inl e | Inr v \<Rightarrow> float_list v)"

definition read_angle :: "device_link \<Rightarrow> nat \<Rightarrow> nat \<Rightarrow> py_error + pyfloat" where
  "read_angle mc g j = (case get_angle mc g j of Inl e \<Rightarrow> Inl e | Inr v \<Rightarrow> to_float v)"

text \<open>The message \<^verbatim>\<open>MyBuddy280Angles\<close>: three joint-state records.\<close>

record joint_state =
  name :: "string list"
  position :: "pyfloat list"
  velocity :: "pyfloat list"
  effort :: "pyfloat list"
  stamp :: nat

record angles_msg =
  left_arm :: joint_state
  right_arm :: joint_state
  waist :: joint_state

text \<open>
  The outcome of one tick: the reads made on the Device Link in order, the messages
  handed to the publisher, and the exception that left the callback, if any.
\<close>

record tick_result =
  reads :: "link_call list"
  published :: "angles_msg list"
  raised :: "py_error option"

text \<open>
  \<^verbatim>\<open>joint_state_callback\<close> (lines 55 to 101). \<open>now k\<close> is the \<open>k\<close>-th reading of the
  node's clock in this tick. The waist position starts as the empty sequence of a fresh
  message and gets one value appended. The publish of line 101 is the last statement, so
  an exception raised by a read leaves the callback before it.
\<close>

definition joint_state_callback :: "device_link \<Rightarrow> (nat \<Rightarrow> nat) \<Rightarrow> tick_result" where
  "joint_state_callback mc now =
     (case read_angles mc 1 of
        Inl e \<Rightarrow> \<lparr>reads = [GetAngles 1], published = [], raised = Some e\<rparr>
      | Inr left \<Rightarrow>
         (case read_angles mc 2 of
            Inl e \<Rightarrow>
              \<lparr>reads = [GetAngles 1, GetAngles 2], published = [], raised = Some e\<rparr>
          | Inr right \<Rightarrow>
             (case read_angle mc 3 1 of
                Inl e \<Rightarrow>
                  \<lparr>reads = [GetAngles 1, GetAngles 2, GetAngle 3 1], published = [],
                   raised = Some e\<rparr>
              | Inr w \<Rightarrow>
                  \<lparr>reads = [GetAngles 1, GetAngles 2, GetAngle 3 1],
                   published =
                     [\<lparr>left_arm =
                         \<lparr>name = [''LJ1'', ''LJ2'', ''LJ3'', ''LJ4'', ''LJ5'', ''LJ6''],
                          position = left, velocity = [], effort = [], stamp = now 0\<rparr>,
                       right_arm =
                         \<lparr>name = [''RJ1'', ''RJ2'', ''RJ3'', ''RJ4'', ''RJ5'', ''RJ6''],
                          position = right, velocity = [], effort = [], stamp = now 1\<rparr>,
                       waist =
                         \<lparr>name = [''W''], position = [] @ [w], velocity = [],
                          effort = [], stamp = now 2\<rparr>\<rparr>],
                   raised = None\<rparr>)))"


text \<open>Device Links and a clock used in the examples below.\<close>

definition example_clock :: "nat \<Rightarrow> nat" where
  "example_clock k = 100 + k"


definition six_zeros :: "nat \<Rightarrow> py_error + sdk_value" where
  "six_zeros g = Inr (Floats (replicate 6 (Fin 0)))"



definition waist_reply :: "nat \<Rightarrow> nat \<Rightarrow> py_error + sdk_value" where
  "waist_reply g j = Inr (Number (Fin 7))"


section \<open>Construction of the node and the entry point\<close>

text \<open>
  What \<^verbatim>\<open>__init__\<close> and \<^verbatim>\<open>main\<close> do to the outside, in order: log lines, and calls
  into rclpy.
\<close>

datatype node_event =
    LogInfo string
  | LogError string
  | RemoveNode
  | RclpyShutdown
  | CreatePublisher string
  | CreateTimer
  | CreateService string
  | AddNode
  | Spin

text \<open>The node after construction: \<^verbatim>\<open>self.mc\<close> is bound only if the SDK object was built.\<close>

record node =
  mc :: "device_link option"

definition registrations :: "node_event list" where
  "registrations =
     [CreatePublisher ''myBuddy280/joints/angles'', CreateTimer,
      CreateService ''myBuddy280/send_joint_angles'']"

text \<open>
  \<^verbatim>\<open>__init__\<close> (lines 22 to 53). \<open>connect\<close> is the outcome of
  \<^verbatim>\<open>MyBuddy(SERIAL_PORT, BAUD_RATE)\<close>; only SerialException is caught. The handler
  (lines 33 to 35) logs and then evaluates \<^verbatim>\<open>self.executor.remove_node(self)\<close>. rclpy is
  not part of the repository: \<open>in_executor\<close> says whether \<^verbatim>\<open>self.executor\<close> is an
  executor at that moment; when it is \<^verbatim>\<open>None\<close> the attribute access raises
  AttributeError, which leaves \<^verbatim>\<open>__init__\<close>. The handler has no return of its own:
  when its calls return, control goes on to the registrations of lines 38 to 53.
\<close>

definition wrapper_init ::
  "bool \<Rightarrow> py_error + device_link \<Rightarrow> node_event list \<times> (py_error + node)" where
  "wrapper_init in_executor connect =
     (case connect of
        Inr dev \<Rightarrow>
          (LogInfo ''Serial port is successfully found'' # registrations,
           Inr \<lparr>mc = Some dev\<rparr>)
      | Inl e \<Rightarrow>
          if e = SerialException then
            if in_executor then
              ([LogError ''Serial port not found'', RemoveNode, RclpyShutdown] @ registrations,
               Inr \<lparr>mc = None\<rparr>)
            else ([LogError ''Serial port not found''], Inl AttributeError)
          else ([], Inl e))"

text \<open>
  \<^verbatim>\<open>main\<close> (lines 161 to 172). The node is constructed at line 166 and added to the
  executor only at line 168, so during construction it belongs to no executor and
  \<^verbatim>\<open>self.executor\<close> is \<^verbatim>\<open>None\<close>. An exception of the constructor is raised before
  the body of the \<^verbatim>\<open>with\<close> statement is entered and is caught nowhere. \<^verbatim>\<open>spin\<close> is
  recorded as the last event; what happens while it runs is not modelled here.
\<close>

definition main :: "py_error + device_link \<Rightarrow> node_event list \<times> py_error option" where
  "main connect =
     (case wrapper_init False connect of
        (events, Inl e) \<Rightarrow> (events, Some e)
      | (events, Inr n) \<Rightarrow> (events @ [AddNode, Spin], None))"

section \<open>Properties of the dispatcher\<close>

subsection \<open>The checks of the loop, and one iteration\<close>

lemma joint_check: "j \<in> set [1, 2, 3, 4, 5, 6] \<longleftrightarrow> joint_in_range j"
  unfolding joint_in_range_def by (simp, arith)

lemma angle_check:
  "float_le (Fin (- 175)) a \<and> float_le a (Fin 175) \<longleftrightarrow> angle_in_range a"
  by (cases a) (simp_all add: angle_in_range_def)

lemma drop_step: "i < length xs \<Longrightarrow> drop i xs = xs ! i # drop (Suc i) xs"
  by (simp add: Cons_nth_drop_Suc)

lemma send_loop_Cons:
  "send_loop p req (j # js) i calls =
     (if \<not> joint_in_range j then
        (calls, i, Inr ''Error: Wrong joint number (only 1 .. 6)'')
      else case index_at (angle req) i of
        Inl e \<Rightarrow> (calls, i, Inl e)
      | Inr a \<Rightarrow>
         if \<not> angle_in_range a then
           (calls, i, Inr ''Error: Angle is out of range (-175 .. 175)'')
         else case index_at (speed req) i of
           Inl e \<Rightarrow> (calls, i, Inl e)
         | Inr s \<Rightarrow>
            if \<not> speed_in_range s then
              (calls, i, Inr ''Error: Speed is out of range (1 .. 100)'')
            else send_loop p req js (Suc i) (calls @ [SendAngle p j a s]))"
  by (simp only: send_loop.simps joint_check angle_check speed_in_range_def Suc_eq_plus1
      split: sum.split) simp

lemma loop_step_valid:
  assumes "i < length (joint_number req)" and "i < length (angle req)"
    and "i < length (speed req)" and "valid_entry req i"
  shows "send_loop p req (drop i (joint_number req)) i calls =
         send_loop p req (drop (Suc i) (joint_number req)) (Suc i)
           (calls @ [entry_call p req i])"
  using assms(2,3,4)
  by (simp add: drop_step [OF assms(1)] send_loop_Cons index_at_def entry_call_def
      valid_entry_def del: send_loop.simps)

lemma loop_step_invalid:
  assumes "i < length (joint_number req)" and "i < length (angle req)"
    and "i < length (speed req)" and "\<not> valid_entry req i"
  shows "send_loop p req (drop i (joint_number req)) i calls =
         (calls, i, Inr (failure_message req i))"
  using assms(2,3,4)
  by (auto simp add: drop_step [OF assms(1)] send_loop_Cons index_at_def
      failure_message_def valid_entry_def simp del: send_loop.simps)

lemma loop_valid_prefix:
  assumes "i \<le> n" and "n \<le> length (joint_number req)" and "n \<le> length (angle req)"
    and "n \<le> length (speed req)" and "\<And>k. i \<le> k \<Longrightarrow> k < n \<Longrightarrow> valid_entry req k"
  shows "send_loop p req (drop i (joint_number req)) i calls =
         send_loop p req (drop n (joint_number req)) n
           (calls @ map (entry_call p req) [i..<n])"
  using assms
proof (induction n rule: dec_induct)
  case base
  show ?case by simp
next
  case (step m)
  have "send_loop p req (drop i (joint_number req)) i calls =
        send_loop p req (drop m (joint_number req)) m
          (calls @ map (entry_call p req) [i..<m])"
    using step by simp
  also have "\<dots> = send_loop p req (drop (Suc m) (joint_number req)) (Suc m)
          ((calls @ map (entry_call p req) [i..<m]) @ [entry_call p req m])"
    using step by (intro loop_step_valid) simp_all
  finally show ?case using step.hyps by simp
qed

lemma resolve_part_cases:
  "(c, p) \<in> {(''L'', 1), (''R'', 2), (''W'', 3)} \<longleftrightarrow> resolve_part c = Some p"
  by (auto simp add: resolve_part_def)

subsection \<open>Whole runs of the loop\<close>

lemma loop_all_valid:
  assumes "length (joint_number req) \<le> length (angle req)"
    and "length (joint_number req) \<le> length (speed req)"
    and "\<And>k. k < length (joint_number req) \<Longrightarrow> valid_entry req k"
  shows "send_loop p req (joint_number req) 0 [] =
         (sent p req (length (joint_number req)), length (joint_number req),
          Inr ''Success: Angles sent'')"
  using loop_valid_prefix [of 0 "length (joint_number req)" req p "[]"] assms
  by (simp add: sent_def)

lemma loop_first_invalid:
  assumes "k < length (joint_number req)" and "k < length (angle req)"
    and "k < length (speed req)" and "\<And>m. m < k \<Longrightarrow> valid_entry req m"
    and "\<not> valid_entry req k"
  shows "send_loop p req (joint_number req) 0 [] =
         (sent p req k, k, Inr (failure_message req k))"
proof -
  have "send_loop p req (joint_number req) 0 [] =
        send_loop p req (drop k (joint_number req)) k (sent p req k)"
    using loop_valid_prefix [of 0 k req p "[]"] assms(1-4) by (simp add: sent_def)
  then show ?thesis
    using loop_step_invalid [OF assms(1-3) assms(5)] by simp
qed

lemma first_invalid_exists:
  "k < n \<Longrightarrow> \<not> P (k::nat) \<Longrightarrow> \<exists>j<n. \<not> P j \<and> (\<forall>m<j. P m)"
proof (induction k rule: less_induct)
  case (less k)
  show ?case
  proof (cases "\<forall>m<k. P m")
    case True
    then show ?thesis using less.prems by blast
  next
    case False
    then obtain m where m: "m < k" "\<not> P m" by blast
    then have "m < n" using less.prems(1) by simp
    then show ?thesis using less.IH [OF m(1) _ m(2)] by simp
  qed
qed

lemma loop_run_cases:
  assumes "length (joint_number req) \<le> length (angle req)"
    and "length (joint_number req) \<le> length (speed req)"
  obtains
    (success) "\<forall>k<length (joint_number req). valid_entry req k"
      "send_loop p req (joint_number req) 0 [] =
         (sent p req (length (joint_number req)), length (joint_number req),
          Inr ''Success: Angles sent'')"
  | (failure) k where "k < length (joint_number req)" "\<forall>m<k. valid_entry req m"
      "\<not> valid_entry req k"
      "send_loop p req (joint_number req) 0 [] =
         (sent p req k, k, Inr (failure_message req k))"
proof (cases "\<forall>k<length (joint_number req). valid_entry req k")
  case True
  then show ?thesis using loop_all_valid [OF assms] success by simp
next
  case False
  then obtain k where k: "k < length (joint_number req)" "\<not> valid_entry req k"
    "\<forall>m<k. valid_entry req m"
    using first_invalid_exists [of _ "length (joint_number req)" "valid_entry req"]
    by blast
  then show ?thesis
    using loop_first_invalid [of k req p] assms failure [of k] by simp
qed

lemma failure_message_cases:
  "failure_message req k \<in>
     {''Error: Wrong joint number (only 1 .. 6)'',
      ''Error: Angle is out of range (-175 .. 175)'',
      ''Error: Speed is out of range (1 .. 100)''}"
  by (simp add: failure_message_def)

lemma take_agree:
  assumes "take (Suc k) ys = take (Suc k) xs" and "k < length xs"
  shows "k < length ys" and "\<And>m. m \<le> k \<Longrightarrow> ys ! m = xs ! m"
proof -
  have "length (take (Suc k) ys) = length (take (Suc k) xs)" using assms(1) by simp
  then show "k < length ys" using assms(2) by simp
next
  fix m assume "m \<le> k"
  then have "ys ! m = take (Suc k) ys ! m" "xs ! m = take (Suc k) xs ! m" by simp_all
  then show "ys ! m = xs ! m" using assms(1) by simp
qed

lemma callback_returns_message:
  assumes "length (joint_number req) \<le> length (angle req)"
    and "length (joint_number req) \<le> length (speed req)"
  shows "\<exists>msg. snd (send_joint_angles_callback req) = Inr msg \<and> msg \<noteq> []
           \<and> msg \<in> {''Error: Wrong ID of robot part, use only L, R or W'',
                      ''Error: Wrong joint number (only 1 .. 6)'',
                      ''Error: Angle is out of range (-175 .. 175)'',
                      ''Error: Speed is out of range (1 .. 100)'',
                      ''Success: Angles sent''}"
proof (cases "resolve_part (part_id req)")
  case None
  then show ?thesis by (simp add: send_joint_angles_callback_def)
next
  case (Some q)
  then have cb: "snd (send_joint_angles_callback req) =
                 snd (snd (send_loop q req (joint_number req) 0 []))"
    by (simp add: send_joint_angles_callback_def run_loop_def split: prod.split)
  from assms show ?thesis
  proof (cases rule: loop_run_cases [where p = q])
    case success
    then show ?thesis by (simp add: cb)
  next
    case (failure k)
    have "snd (send_joint_angles_callback req) = Inr (failure_message req k)"
      by (simp add: cb failure(4))
    moreover have "failure_message req k \<noteq> []"
      by (simp add: failure_message_def)
    ultimately show ?thesis using failure_message_cases [of req k] by auto
  qed
qed

subsection \<open>The claims\<close>

text \<open>
  Claim C3. A request whose part code is none of L, R and W is answered with the
  wrong-ID message and makes no call on the Device Link, whatever its sequences hold.
\<close>

theorem wrong_part_id_no_calls:
  assumes "part_id req \<noteq> ''L''" and "part_id req \<noteq> ''R''" and "part_id req \<noteq> ''W''"
  shows "send_joint_angles_callback req =
           ([], Inr ''Error: Wrong ID of robot part, use only L, R or W'')"
  using assms by (simp add: send_joint_angles_callback_def resolve_part_def)

theorem wrong_part_id_no_calls_witness:
  "send_joint_angles_callback
     \<lparr>part_id = ''X'', joint_number = [1], angle = [Fin 10], speed = [50]\<rparr> =
   ([], Inr ''Error: Wrong ID of robot part, use only L, R or W'')"
  using wrong_part_id_no_calls
    [of "\<lparr>part_id = ''X'', joint_number = [1], angle = [Fin 10], speed = [50]\<rparr>"]
  by simp

text \<open>
  Claim C10. A request with a part code among L, R and W and an empty joint-number
  sequence succeeds without any \<^verbatim>\<open>send_angle\<close> call.
\<close>

theorem empty_batch_succeeds:
  assumes "part_id req \<in> {''L'', ''R'', ''W''}" and "joint_number req = []"
  shows "send_joint_angles_callback req = ([], Inr ''Success: Angles sent'')"
  using assms by (auto simp add: send_joint_angles_callback_def run_loop_def resolve_part_def)

theorem empty_batch_succeeds_witness:
  "send_joint_angles_callback
     \<lparr>part_id = ''R'', joint_number = [], angle = [Fin 10], speed = []\<rparr> =
   ([], Inr ''Success: Angles sent'')"
  using empty_batch_succeeds
    [of "\<lparr>part_id = ''R'', joint_number = [], angle = [Fin 10], speed = []\<rparr>"]
  by simp

text \<open>
  Claim C1. Take a request with part code L, R or W (group \<open>p\<close>) and parallel sequences,
  whose entry at index \<open>k\<close> (counted from 0, so \<open>k\<close> entries precede it) is the first
  invalid one. Then the Device Link receives exactly the \<open>k\<close> calls of the preceding
  entries, in request order, and the answer is the message of the first check that entry
  \<open>k\<close> fails (joint number, then angle, then speed). No later entry is looked at: any
  request that agrees on the part code and on entries 0 to \<open>k\<close> has the same outcome.
\<close>

theorem first_invalid_entry_stops_batch:
  assumes "(part_id req, p) \<in> {(''L'', 1), (''R'', 2), (''W'', 3)}" and "parallel req"
    and "k < length (joint_number req)" and "\<forall>m<k. valid_entry req m"
    and "\<not> valid_entry req k"
  shows "send_joint_angles_callback req = (sent p req k, Inr (failure_message req k))
       \<and> length (fst (send_joint_angles_callback req)) = k
       \<and> (\<forall>req'. part_id req' = part_id req
            \<and> take (Suc k) (joint_number req') = take (Suc k) (joint_number req)
            \<and> take (Suc k) (angle req') = take (Suc k) (angle req)
            \<and> take (Suc k) (speed req') = take (Suc k) (speed req)
            \<longrightarrow> send_joint_angles_callback req' = send_joint_angles_callback req)"
proof -
  have p: "resolve_part (part_id req) = Some p"
    using assms(1) by (simp only: resolve_part_cases)
  have len: "k < length (angle req)" "k < length (speed req)"
    using assms(2,3) by (simp_all add: parallel_def)
  have run: "send_joint_angles_callback req = (sent p req k, Inr (failure_message req k))"
    using loop_first_invalid [of k req p] assms(3-5) len p
    by (simp add: send_joint_angles_callback_def run_loop_def)
  have later: "send_joint_angles_callback req' = send_joint_angles_callback req"
    if eq: "part_id req' = part_id req"
      "take (Suc k) (joint_number req') = take (Suc k) (joint_number req)"
      "take (Suc k) (angle req') = take (Suc k) (angle req)"
      "take (Suc k) (speed req') = take (Suc k) (speed req)" for req'
  proof -
    note j = take_agree [OF eq(2) assms(3)]
    note a = take_agree [OF eq(3) len(1)]
    note s = take_agree [OF eq(4) len(2)]
    have same: "valid_entry req' m = valid_entry req m"
      "entry_call p req' m = entry_call p req m" if "m \<le> k" for m
      using that j(2) a(2) s(2) by (simp_all add: valid_entry_def entry_call_def)
    have msg: "failure_message req' k = failure_message req k"
      using j(2) a(2) s(2) by (simp add: failure_message_def)
    have calls: "sent p req' k = sent p req k"
      using same(2) by (simp add: sent_def)
    have "send_loop p req' (joint_number req') 0 [] =
          (sent p req' k, k, Inr (failure_message req' k))"
      using same(1) assms(4,5) by (intro loop_first_invalid j(1) a(1) s(1)) simp_all
    then show ?thesis
      using run p eq(1) msg calls
      by (simp add: send_joint_angles_callback_def run_loop_def)
  qed
  have count: "length (fst (send_joint_angles_callback req)) = k"
    by (simp add: run sent_def)
  from run count later show ?thesis by blast
qed

theorem first_invalid_entry_stops_batch_witness:
  "send_joint_angles_callback
     \<lparr>part_id = ''L'', joint_number = [1, 2], angle = [Fin 10, Fin 200], speed = [50, 50]\<rparr>
   = ([SendAngle 1 1 (Fin 10) 50], Inr ''Error: Angle is out of range (-175 .. 175)'')"
  using first_invalid_entry_stops_batch
    [of "\<lparr>part_id = ''L'', joint_number = [1, 2], angle = [Fin 10, Fin 200],
          speed = [50, 50]\<rparr>" 1 1]
  by (simp add: parallel_def valid_entry_def joint_in_range_def angle_in_range_def
      speed_in_range_def failure_message_def sent_def entry_call_def)

text \<open>
  Claim C2. A request with part code L, R or W and \<open>N\<close> parallel entries, all valid,
  makes exactly \<open>N\<close> \<^verbatim>\<open>send_angle\<close> calls, in request order, each with the group id of
  the part code (L is 1, R is 2, W is 3) and the entry's joint number, angle and speed,
  and is answered with the success message.
\<close>

theorem valid_batch_sends_all:
  assumes "(part_id req, p) \<in> {(''L'', 1), (''R'', 2), (''W'', 3)}" and "parallel req"
    and "\<forall>k<length (joint_number req). valid_entry req k"
  shows "send_joint_angles_callback req =
           (map (\<lambda>k. SendAngle p (joint_number req ! k) (angle req ! k) (speed req ! k))
              [0..<length (joint_number req)],
            Inr ''Success: Angles sent'')
       \<and> length (fst (send_joint_angles_callback req)) = length (joint_number req)"
proof -
  have p: "resolve_part (part_id req) = Some p"
    using assms(1) by (simp only: resolve_part_cases)
  have "send_loop p req (joint_number req) 0 [] =
        (sent p req (length (joint_number req)), length (joint_number req),
         Inr ''Success: Angles sent'')"
    using assms(2,3) by (intro loop_all_valid) (simp_all add: parallel_def)
  then show ?thesis
    using p by (simp add: send_joint_angles_callback_def run_loop_def sent_def entry_call_def)
qed

theorem valid_batch_sends_all_witness:
  "send_joint_angles_callback
     \<lparr>part_id = ''R'', joint_number = [6, 1], angle = [Fin (- 175), Fin 175],
      speed = [1, 100]\<rparr>
   = ([SendAngle 2 6 (Fin (- 175)) 1, SendAngle 2 1 (Fin 175) 100],
      Inr ''Success: Angles sent'')"
  using valid_batch_sends_all
    [of "\<lparr>part_id = ''R'', joint_number = [6, 1], angle = [Fin (- 175), Fin 175],
          speed = [1, 100]\<rparr>" 2]
  by (simp add: parallel_def valid_entry_def joint_in_range_def angle_in_range_def
      speed_in_range_def less_Suc_eq nth_Cons')

text \<open>
  Claim C9. The joint-number check is the same for every group. For the part code W, a
  batch of valid entries is sent whole to group 3 and succeeds, also where an entry names
  a joint from 2 to 6: that entry is issued as
  \<^verbatim>\<open>send_angle(3, joint_number, angle, speed)\<close>.
\<close>

theorem waist_accepts_joints_up_to_six:
  assumes "part_id req = ''W''" and "parallel req"
    and "\<forall>m<length (joint_number req). valid_entry req m"
    and "k < length (joint_number req)" and "joint_number req ! k \<in> {2..6}"
  shows "fst (send_joint_angles_callback req) ! k =
           SendAngle 3 (joint_number req ! k) (angle req ! k) (speed req ! k)
       \<and> snd (send_joint_angles_callback req) = Inr ''Success: Angles sent''"
proof -
  have "send_loop 3 req (joint_number req) 0 [] =
        (sent 3 req (length (joint_number req)), length (joint_number req),
         Inr ''Success: Angles sent'')"
    using assms(2,3) by (intro loop_all_valid) (simp_all add: parallel_def)
  then have "send_joint_angles_callback req =
             (sent 3 req (length (joint_number req)), Inr ''Success: Angles sent'')"
    using assms(1) by (simp add: send_joint_angles_callback_def resolve_part_def run_loop_def)
  then show ?thesis
    using assms(4) by (simp add: sent_def entry_call_def)
qed

theorem waist_accepts_joints_up_to_six_witness:
  "fst (send_joint_angles_callback
          \<lparr>part_id = ''W'', joint_number = [6], angle = [Fin 5], speed = [10]\<rparr>) ! 0
     = SendAngle 3 6 (Fin 5) 10
   \<and> snd (send_joint_angles_callback
          \<lparr>part_id = ''W'', joint_number = [6], angle = [Fin 5], speed = [10]\<rparr>)
     = Inr ''Success: Angles sent''"
  using waist_accepts_joints_up_to_six
    [of "\<lparr>part_id = ''W'', joint_number = [6], angle = [Fin 5], speed = [10]\<rparr>" 0]
  by (simp add: parallel_def valid_entry_def joint_in_range_def angle_in_range_def
      speed_in_range_def)



text \<open>
  Claim C7, as amended. Every request with parallel sequences is answered with exactly one
  message, which is not empty and is one of five fixed texts: the four failure messages
  (wrong part code, wrong joint number, angle out of range, speed out of range) and the
  success message. The claim counts four; each of the five is produced by some request.
\<close>

theorem result_message_is_one_of_five:
  assumes "parallel req"
  shows "\<exists>msg. snd (send_joint_angles_callback req) = Inr msg \<and> msg \<noteq> []
           \<and> msg \<in> {''Error: Wrong ID of robot part, use only L, R or W'',
                      ''Error: Wrong joint number (only 1 .. 6)'',
                      ''Error: Angle is out of range (-175 .. 175)'',
                      ''Error: Speed is out of range (1 .. 100)'',
                      ''Success: Angles sent''}"
proof -
  have "length (joint_number req) \<le> length (angle req)"
    and "length (joint_number req) \<le> length (speed req)"
    using assms by (simp_all add: parallel_def)
  then show ?thesis by (rule callback_returns_message)
qed

theorem result_message_is_one_of_five_witness:
  "snd (send_joint_angles_callback
          \<lparr>part_id = ''W'', joint_number = [1], angle = [Fin 5], speed = [0]\<rparr>)
     = Inr ''Error: Speed is out of range (1 .. 100)''"
  using result_message_is_one_of_five
    [of "\<lparr>part_id = ''W'', joint_number = [1], angle = [Fin 5], speed = [0]\<rparr>"]
  by (simp add: parallel_def index_at_def send_joint_angles_callback_def resolve_part_def
      run_loop_def)

theorem five_distinct_messages_counterexample:
  "snd (send_joint_angles_callback
          \<lparr>part_id = ''X'', joint_number = [1], angle = [Fin 5], speed = [10]\<rparr>)
     = Inr ''Error: Wrong ID of robot part, use only L, R or W''
   \<and> snd (send_joint_angles_callback
          \<lparr>part_id = ''L'', joint_number = [7], angle = [Fin 5], speed = [10]\<rparr>)
     = Inr ''Error: Wrong joint number (only 1 .. 6)''
   \<and> snd (send_joint_angles_callback
          \<lparr>part_id = ''L'', joint_number = [1], angle = [Fin 200], speed = [10]\<rparr>)
     = Inr ''Error: Angle is out of range (-175 .. 175)''
   \<and> snd (send_joint_angles_callback
          \<lparr>part_id = ''L'', joint_number = [1], angle = [Fin 5], speed = [0]\<rparr>)
     = Inr ''Error: Speed is out of range (1 .. 100)''
   \<and> snd (send_joint_angles_callback
          \<lparr>part_id = ''L'', joint_number = [1], angle = [Fin 5], speed = [10]\<rparr>)
     = Inr ''Success: Angles sent''
   \<and> card {''Error: Wrong ID of robot part, use only L, R or W'',
            ''Error: Wrong joint number (only 1 .. 6)'',
            ''Error: Angle is out of range (-175 .. 175)'',
            ''Error: Speed is out of range (1 .. 100)'',
            ''Success: Angles sent''} = 5"
  by (simp add: index_at_def send_joint_angles_callback_def resolve_part_def run_loop_def)

section \<open>Properties of the telemetry callback\<close>

lemma tick_all_reads_return:
  assumes "read_angles dev 1 = Inr ls" and "read_angles dev 2 = Inr rs"
    and "read_angle dev 3 1 = Inr w"
  shows "joint_state_callback dev now =
     \<lparr>reads = [GetAngles 1, GetAngles 2, GetAngle 3 1],
      published =
        [\<lparr>left_arm =
            \<lparr>name = [''LJ1'', ''LJ2'', ''LJ3'', ''LJ4'', ''LJ5'', ''LJ6''],
             position = ls, velocity = [], effort = [], stamp = now 0\<rparr>,
          right_arm =
            \<lparr>name = [''RJ1'', ''RJ2'', ''RJ3'', ''RJ4'', ''RJ5'', ''RJ6''],
             position = rs, velocity = [], effort = [], stamp = now 1\<rparr>,
          waist =
            \<lparr>name = [''W''], position = [w], velocity = [], effort = [],
             stamp = now 2\<rparr>\<rparr>],
      raised = None\<rparr>"
  using assms by (simp add: joint_state_callback_def)







text \<open>
  Claim C6. A tick whose three reads answer as the Device Link promises (six numbers for
  group 1, six for group 2, one number for joint 1 of group 3) makes exactly these three
  reads, in this order, and publishes exactly one message. Its positions are the values
  read in this tick, of lengths 6, 6 and 1, and every velocity and effort field is empty.
\<close>

theorem successful_tick_publishes_one_message:
  assumes "get_angles dev 1 = Inr (Floats ls)" and "length ls = 6"
    and "get_angles dev 2 = Inr (Floats rs)" and "length rs = 6"
    and "get_angle dev 3 1 = Inr (Number w)"
  shows "reads (joint_state_callback dev now) = [GetAngles 1, GetAngles 2, GetAngle 3 1]
       \<and> raised (joint_state_callback dev now) = None
       \<and> (\<exists>msg. published (joint_state_callback dev now) = [msg]
            \<and> position (left_arm msg) = ls \<and> length (position (left_arm msg)) = 6
            \<and> position (right_arm msg) = rs \<and> length (position (right_arm msg)) = 6
            \<and> position (waist msg) = [w] \<and> length (position (waist msg)) = 1
            \<and> velocity (left_arm msg) = [] \<and> effort (left_arm msg) = []
            \<and> velocity (right_arm msg) = [] \<and> effort (right_arm msg) = []
            \<and> velocity (waist msg) = [] \<and> effort (waist msg) = [])"
proof -
  have "read_angles dev 1 = Inr ls" "read_angles dev 2 = Inr rs" "read_angle dev 3 1 = Inr w"
    using assms(1,3,5) by (simp_all add: read_angles_def read_angle_def float_list_def to_float_def)
  then have "joint_state_callback dev now =
     \<lparr>reads = [GetAngles 1, GetAngles 2, GetAngle 3 1],
      published =
        [\<lparr>left_arm =
            \<lparr>name = [''LJ1'', ''LJ2'', ''LJ3'', ''LJ4'', ''LJ5'', ''LJ6''],
             position = ls, velocity = [], effort = [], stamp = now 0\<rparr>,
          right_arm =
            \<lparr>name = [''RJ1'', ''RJ2'', ''RJ3'', ''RJ4'', ''RJ5'', ''RJ6''],
             position = rs, velocity = [], effort = [], stamp = now 1\<rparr>,
          waist =
            \<lparr>name = [''W''], position = [w], velocity = [], effort = [],
             stamp = now 2\<rparr>\<rparr>],
      raised = None\<rparr>"
    by (rule tick_all_reads_return)
  then show ?thesis using assms(2,4) by simp
qed

theorem successful_tick_publishes_one_message_witness:
  "reads (joint_state_callback \<lparr>get_angles = six_zeros, get_angle = waist_reply\<rparr>
            example_clock) = [GetAngles 1, GetAngles 2, GetAngle 3 1]
   \<and> length (published (joint_state_callback
            \<lparr>get_angles = six_zeros, get_angle = waist_reply\<rparr> example_clock)) = 1"
  using successful_tick_publishes_one_message
    [of "\<lparr>get_angles = six_zeros, get_angle = waist_reply\<rparr>"
        "replicate 6 (Fin 0)" "replicate 6 (Fin 0)" "Fin 7" example_clock]
  by (auto simp add: six_zeros_def waist_reply_def)




section \<open>Properties of the construction\<close>

lemma handler_falls_through_in_executor:
  "wrapper_init True (Inl SerialException) =
     ([LogError ''Serial port not found'', RemoveNode, RclpyShutdown] @ registrations,
      Inr \<lparr>mc = None\<rparr>)"
  by (simp add: wrapper_init_def)

lemma main_with_open_port:
  "main (Inr dev) =
     (LogInfo ''Serial port is successfully found'' # registrations @ [AddNode, Spin], None)"
  by (simp add: main_def wrapper_init_def)

text \<open>
  Claim C4. When the SDK object cannot be built because the serial port is unavailable,
  the program stops: the constructor is left by an exception that nothing catches, no
  publisher, timer or service has been created, and the node is neither added to the
  executor nor spun.
\<close>

theorem serial_failure_is_fatal:
  assumes "connect = Inl SerialException"
  shows "main connect = ([LogError ''Serial port not found''], Some AttributeError)
       \<and> snd (main connect) \<noteq> None
       \<and> set (fst (main connect)) \<inter> (set registrations \<union> {AddNode, Spin}) = {}"
  using assms by (simp add: main_def wrapper_init_def registrations_def)

theorem serial_failure_is_fatal_witness:
  "main (Inl SerialException) = ([LogError ''Serial port not found''], Some AttributeError)"
  using serial_failure_is_fatal [of "Inl SerialException"] by simp

end
